theory Spec2Isabelle
  imports Complex_Main
begin

section \<open>Downsampling of 1D series: the LTTB and stride selectors\<close>

text \<open>
  A shallow embedding of \<^verbatim>\<open>holoviews/operation/downsampling.py\<close>.

  Numbers. The series values are finite float64 values; the model reads them as
  rationals and float64 arithmetic as exact arithmetic on rationals, as the
  specification does ("as a real number"). Rounding, overflow and infinities are outside
  the model. The one NaN the code can produce from finite data, the mean of an empty
  slice, is kept: a computed float is a \<open>rat option\<close> with \<open>None\<close> for NaN.

  Library calls. The NumPy operations the module calls (indexing, slicing, \<open>arange\<close>,
  \<open>astype\<close>, \<open>empty\<close>, \<open>mean\<close>, broadcasting arithmetic, \<open>argmax\<close>) are modelled
  with the behaviour of the plain NumPy path, the one the module takes when
  \<open>njit\<close> is the identity wrapper. Every exception they raise is a value of \<open>error\<close>.
\<close>

subsection \<open>Errors and sequencing\<close>

datatype error = ZeroDivisionError | ValueError | IndexError | NameError | KeyError | TypeError

definition r_bind :: "error + 'a \<Rightarrow> ('a \<Rightarrow> error + 'b) \<Rightarrow> error + 'b" where
  "r_bind m f = (case m of Inl e \<Rightarrow> Inl e | Inr v \<Rightarrow> f v)"

text \<open>\<open>for i in rng: s = body(i, s)\<close>, stopping at the first exception.\<close>

primrec for_range :: "nat list \<Rightarrow> (nat \<Rightarrow> 's \<Rightarrow> error + 's) \<Rightarrow> 's \<Rightarrow> error + 's" where
  "for_range [] body s = Inr s"
| "for_range (i # rng) body s = r_bind (body i s) (for_range rng body)"

subsection \<open>Floats with NaN\<close>

type_synonym npfloat = "rat option"

definition f_lift2 :: "(rat \<Rightarrow> rat \<Rightarrow> rat) \<Rightarrow> npfloat \<Rightarrow> npfloat \<Rightarrow> npfloat" where
  "f_lift2 f a b = (case a of None \<Rightarrow> None | Some u \<Rightarrow> (case b of None \<Rightarrow> None | Some v \<Rightarrow> Some (f u v)))"

definition f_add :: "npfloat \<Rightarrow> npfloat \<Rightarrow> npfloat" where
  "f_add = f_lift2 (+)"

definition f_sub :: "npfloat \<Rightarrow> npfloat \<Rightarrow> npfloat" where
  "f_sub = f_lift2 (-)"

definition f_mul :: "npfloat \<Rightarrow> npfloat \<Rightarrow> npfloat" where
  "f_mul = f_lift2 (*)"

definition f_abs :: "npfloat \<Rightarrow> npfloat" where
  "f_abs a = map_option abs a"

text \<open>\<open>a <= b\<close> on floats: false as soon as one side is NaN.\<close>

definition f_le :: "npfloat \<Rightarrow> npfloat \<Rightarrow> bool" where
  "f_le a b = (case a of None \<Rightarrow> False | Some u \<Rightarrow> (case b of None \<Rightarrow> False | Some v \<Rightarrow> u \<le> v))"

subsection \<open>The NumPy operations the module uses\<close>

text \<open>\<open>xs[i]\<close> for an integer \<open>i\<close>: a negative index counts from the end, an index out of
  range raises IndexError.\<close>

definition np_index :: "'a list \<Rightarrow> int \<Rightarrow> error + 'a" where
  "np_index xs i =
     (let n = int (length xs); j = (if i < 0 then n + i else i)
      in if 0 \<le> j \<and> j < n then Inr (xs ! nat j) else Inl IndexError)"

text \<open>\<open>xs[i] = v\<close>, with the same index rule.\<close>

definition np_setitem :: "'a list \<Rightarrow> int \<Rightarrow> 'a \<Rightarrow> error + 'a list" where
  "np_setitem xs i v =
     (let n = int (length xs); j = (if i < 0 then n + i else i)
      in if 0 \<le> j \<and> j < n then Inr (xs[nat j := v]) else Inl IndexError)"

text \<open>A slice bound: a negative bound counts from the end, and every bound is clamped
  into \<open>0 .. len\<close>. A slice never raises.\<close>

definition slice_bound :: "nat \<Rightarrow> int \<Rightarrow> nat" where
  "slice_bound n i = (if i < 0 then nat (max 0 (int n + i)) else min n (nat i))"

definition np_slice :: "'a list \<Rightarrow> int \<Rightarrow> int \<Rightarrow> 'a list" where
  "np_slice xs lo hi =
     (let l = slice_bound (length xs) lo; h = slice_bound (length xs) hi
      in take (h - l) (drop l xs))"

text \<open>\<open>np.arange(start, stop, step)\<close> with a float step: \<open>ceil((stop - start) / step)\<close>
  values \<open>start + i * step\<close>, none when that count is not positive; the division raises
  for a zero step.\<close>

definition np_arange :: "rat \<Rightarrow> rat \<Rightarrow> rat \<Rightarrow> error + rat list" where
  "np_arange start stop step =
     (if step = 0 then Inl ZeroDivisionError
      else Inr (map (\<lambda>i. start + of_nat i * step) [0 ..< nat \<lceil>(stop - start) / step\<rceil>]))"

text \<open>\<open>.astype(np.int64)\<close> on one float: truncation toward zero.\<close>

definition astype_int64 :: "rat \<Rightarrow> int" where
  "astype_int64 r = (if 0 \<le> r then \<lfloor>r\<rfloor> else \<lceil>r\<rceil>)"

text \<open>\<open>np.empty(n, dtype="int64")\<close>: \<open>n\<close> slots of uninitialised memory, whatever it
  holds being the parameter \<open>junk\<close>; a negative size raises ValueError.\<close>

definition np_empty :: "(nat \<Rightarrow> int) \<Rightarrow> int \<Rightarrow> error + int list" where
  "np_empty junk n = (if n < 0 then Inl ValueError else Inr (map junk [0 ..< nat n]))"

text \<open>\<open>np.mean\<close> of a one-dimensional slice: NaN (with a warning, no exception) when the
  slice is empty.\<close>

definition np_mean :: "rat list \<Rightarrow> npfloat" where
  "np_mean xs = (if xs = [] then None else Some (sum_list xs / of_nat (length xs)))"

text \<open>Array times scalar, array plus scalar, and array plus array with broadcasting of
  one-dimensional shapes: equal lengths, or one side of length one; anything else raises
  ValueError.\<close>

definition np_scale :: "rat list \<Rightarrow> npfloat \<Rightarrow> npfloat list" where
  "np_scale xs c = map (\<lambda>v. f_mul (Some v) c) xs"

definition np_add_scalar :: "npfloat list \<Rightarrow> npfloat \<Rightarrow> npfloat list" where
  "np_add_scalar xs c = map (\<lambda>v. f_add v c) xs"

definition np_add :: "npfloat list \<Rightarrow> npfloat list \<Rightarrow> error + npfloat list" where
  "np_add us vs =
     (if length us = length vs then Inr (map2 f_add us vs)
      else if length us = 1 then Inr (map (f_add (hd us)) vs)
      else if length vs = 1 then Inr (map (\<lambda>u. f_add u (hd vs)) us)
      else Inl ValueError)"

text \<open>\<open>argmax\<close> scans from the left and moves to a later element only when that element
  is not \<open><=\<close> the best so far; it stops at the first NaN. An empty array raises
  ValueError.\<close>

fun argmax_scan :: "npfloat list \<Rightarrow> nat \<Rightarrow> npfloat \<Rightarrow> nat \<Rightarrow> nat" where
  "argmax_scan [] i mp mi = mi"
| "argmax_scan (v # vs) i mp mi =
     (if mp = None then mi
      else if f_le v mp then argmax_scan vs (Suc i) mp mi
      else argmax_scan vs (Suc i) v i)"

definition np_argmax :: "npfloat list \<Rightarrow> error + int" where
  "np_argmax vs = (case vs of [] \<Rightarrow> Inl ValueError | v # ws \<Rightarrow> Inr (int (argmax_scan ws 1 v 0)))"

subsection \<open>The LTTB selector\<close>

text \<open>\<open>_argmax_area\<close>: the position in the bucket of the largest absolute value of
  \<open>x_bucket * (prev_y - avg_next_y) + y_bucket * (avg_next_x - prev_x)
    + (prev_x * avg_next_y - avg_next_x * prev_y)\<close>.\<close>

definition argmax_area ::
  "rat \<Rightarrow> rat \<Rightarrow> npfloat \<Rightarrow> npfloat \<Rightarrow> rat list \<Rightarrow> rat list \<Rightarrow> error + int" where
  "argmax_area prev_x prev_y avg_next_x avg_next_y x_bucket y_bucket =
     r_bind (np_add (np_scale x_bucket (f_sub (Some prev_y) avg_next_y))
                    (np_scale y_bucket (f_sub avg_next_x (Some prev_x))))
       (\<lambda>s. np_argmax (map f_abs
          (np_add_scalar s (f_sub (f_mul (Some prev_x) avg_next_y)
                                  (f_mul avg_next_x (Some prev_y))))))"

text \<open>\<open>block_size = (y.shape[0] - 2) / (n_out - 2)\<close>, a true division of two integers, and
  \<open>offset = np.arange(start=1, stop=y.shape[0], step=block_size).astype(np.int64)\<close>.\<close>

definition block_size :: "nat \<Rightarrow> int \<Rightarrow> error + rat" where
  "block_size n n_out =
     (if n_out - 2 = 0 then Inl ZeroDivisionError
      else Inr (of_int (int n - 2) / of_int (n_out - 2)))"

definition lttb_offset :: "nat \<Rightarrow> int \<Rightarrow> error + int list" where
  "lttb_offset n n_out =
     r_bind (block_size n n_out) (\<lambda>bs.
     r_bind (np_arange 1 (of_nat n) bs) (\<lambda>steps.
     Inr (map astype_int64 steps)))"

text \<open>One turn of the loop \<open>for i in range(n_out - 3)\<close>; the state is the pair of \<open>a\<close> and
  \<open>sampled_x\<close>. The reads happen in the order in which the call evaluates its
  arguments.\<close>

definition lttb_step ::
  "rat list \<Rightarrow> rat list \<Rightarrow> int list \<Rightarrow> nat \<Rightarrow> int \<times> int list \<Rightarrow> error + (int \<times> int list)" where
  "lttb_step x y offset i st =
     (case st of (a, sampled_x) \<Rightarrow>
     r_bind (np_index x a) (\<lambda>prev_x.
     r_bind (np_index y a) (\<lambda>prev_y.
     r_bind (np_index offset (int i + 1)) (\<lambda>o1.
     r_bind (np_index offset (int i + 2)) (\<lambda>o2.
     r_bind (np_index offset (int i)) (\<lambda>o0.
     r_bind (argmax_area prev_x prev_y
               (np_mean (np_slice x o1 o2)) (np_mean (np_slice y o1 o2))
               (np_slice x o0 o1) (np_slice y o0 o1)) (\<lambda>k.
     r_bind (np_setitem sampled_x (int i + 1) (k + o0)) (\<lambda>sampled_x'.
     Inr (k + o0, sampled_x')))))))))"

text \<open>The edge case after the loop: the next point is the last data point, the bucket is
  \<open>offset[-2] : offset[-1]\<close>, and the result goes to \<open>sampled_x[-2]\<close>.\<close>

definition lttb_last ::
  "rat list \<Rightarrow> rat list \<Rightarrow> int list \<Rightarrow> int \<times> int list \<Rightarrow> error + int list" where
  "lttb_last x y offset st =
     (case st of (a, sampled_x) \<Rightarrow>
     r_bind (np_index x a) (\<lambda>prev_x.
     r_bind (np_index y a) (\<lambda>prev_y.
     r_bind (np_index x (- 1)) (\<lambda>last_x.
     r_bind (np_index y (- 1)) (\<lambda>last_y.
     r_bind (np_index offset (- 2)) (\<lambda>lo.
     r_bind (np_index offset (- 1)) (\<lambda>hi.
     r_bind (argmax_area prev_x prev_y (Some last_x) (Some last_y)
               (np_slice x lo hi) (np_slice y lo hi)) (\<lambda>k.
     np_setitem sampled_x (- 2) (k + lo)))))))))"

text \<open>\<open>_lttb(x, y, n_out)\<close>.\<close>

definition lttb :: "(nat \<Rightarrow> int) \<Rightarrow> rat list \<Rightarrow> rat list \<Rightarrow> int \<Rightarrow> error + int list" where
  "lttb junk x y n_out =
     r_bind (lttb_offset (length y) n_out) (\<lambda>offset.
     r_bind (np_empty junk n_out) (\<lambda>s0.
     r_bind (np_setitem s0 0 0) (\<lambda>s1.
     r_bind (np_setitem s1 (- 1) (int (length x) - 1)) (\<lambda>s2.
     r_bind (for_range [0 ..< nat (n_out - 3)] (lttb_step x y offset) (0, s2)) (\<lambda>st.
     lttb_last x y offset st)))))"

subsection \<open>The stride selector\<close>

text \<open>The names \<open>_nth_point\<close> can see. Its local names are its three parameters; the
  names bound at module level are modules, functions, a class and a dictionary. A name
  in neither list (and not a builtin) raises NameError when it is read.\<close>

datatype pyval = PyArray "rat list" | PyInt int | PyObject

definition module_names :: "string list" where
  "module_names = [''math'', ''np'', ''param'', ''njit'', ''ResamplingOperation1D'',
     ''_argmax_area'', ''_lttb'', ''_nth_point'', ''_ALGORITHMS'', ''downsample1d'']"

definition nth_point_scope :: "rat list \<Rightarrow> rat list \<Rightarrow> int \<Rightarrow> (string \<times> pyval) list" where
  "nth_point_scope x y n_out =
     [(''x'', PyArray x), (''y'', PyArray y), (''n_out'', PyInt n_out)] @ map (\<lambda>nm. (nm, PyObject)) module_names"

definition read_name :: "(string \<times> pyval) list \<Rightarrow> string \<Rightarrow> error + pyval" where
  "read_name scope nm = (case map_of scope nm of None \<Rightarrow> Inl NameError | Some v \<Rightarrow> Inr v)"

definition py_len :: "pyval \<Rightarrow> error + int" where
  "py_len v = (case v of PyArray xs \<Rightarrow> Inr (int (length xs)) | _ \<Rightarrow> Inl TypeError)"

text \<open>\<open>np.arange(start, stop, step)\<close> on integers, for a positive step.\<close>

definition np_arange_int :: "int \<Rightarrow> int \<Rightarrow> int \<Rightarrow> error + int list" where
  "np_arange_int start stop step =
     (if step = 0 then Inl ZeroDivisionError
      else Inr (map (\<lambda>i. start + int i * step)
                  [0 ..< nat \<lceil>(of_int (stop - start) :: rat) / of_int step\<rceil>]))"

text \<open>\<open>_nth_point(x, y, n_out)\<close>: \<open>n_samples = len(s)\<close>, then
  \<open>np.arange(0, n_samples, max(1, math.ceil(n_samples / n_out)))\<close>.\<close>

definition nth_point :: "rat list \<Rightarrow> rat list \<Rightarrow> int \<Rightarrow> error + int list" where
  "nth_point x y n_out =
     r_bind (read_name (nth_point_scope x y n_out) ''s'') (\<lambda>s.
     r_bind (py_len s) (\<lambda>n_samples.
     r_bind (if n_out = 0 then Inl ZeroDivisionError
             else Inr ((of_int n_samples :: rat) / of_int n_out)) (\<lambda>q.
     np_arange_int 0 n_samples (max 1 \<lceil>q\<rceil>))))"

subsection \<open>The operation \<open>downsample1d\<close>\<close>

text \<open>The element is the tabular data object of the framework, seen through the four
  calls \<open>_process\<close> makes: its first two dimensions as columns, the second one boolean
  or numeric.\<close>

datatype ycolumn = BoolCol "bool list" | NumCol "rat list"

record element =
  xcol :: "rat list"
  ycol :: ycolumn

record params =
  x_range :: "(rat \<times> rat) option"
  width :: int
  algorithm :: string

text \<open>\<open>len(element)\<close>.\<close>

definition elem_len :: "element \<Rightarrow> nat" where
  "elem_len e = length (xcol e)"

definition keep_rows :: "bool list \<Rightarrow> 'a list \<Rightarrow> 'a list" where
  "keep_rows ks vs = map snd (filter fst (zip ks vs))"

definition map_ycolumn :: "(bool list \<Rightarrow> bool list) \<Rightarrow> (rat list \<Rightarrow> rat list) \<Rightarrow> ycolumn \<Rightarrow> ycolumn" where
  "map_ycolumn f g c = (case c of BoolCol bs \<Rightarrow> BoolCol (f bs) | NumCol vs \<Rightarrow> NumCol (g vs))"

text \<open>Modelled from the spec: \<open>element[slice(lo, hi)]\<close>, the framework's range filter,
  which is not part of the module. The specification has it "filter data to the
  half-open interval": the rows whose x value lies in \<open>[lo, hi)\<close>, in their order.\<close>

definition getitem_slice :: "element \<Rightarrow> rat \<times> rat \<Rightarrow> element" where
  "getitem_slice e r =
     (let ks = map (\<lambda>v. fst r \<le> v \<and> v < snd r) (xcol e)
      in \<lparr>xcol = keep_rows ks (xcol e), ycol = map_ycolumn (keep_rows ks) (keep_rows ks) (ycol e)\<rparr>)"

text \<open>Taking the rows at a list of integer positions, each read as an index is.\<close>

primrec np_take :: "'a list \<Rightarrow> int list \<Rightarrow> error + 'a list" where
  "np_take xs [] = Inr []"
| "np_take xs (i # rest) =
     r_bind (np_index xs i) (\<lambda>v. r_bind (np_take xs rest) (\<lambda>vs. Inr (v # vs)))"

definition take_ycolumn :: "ycolumn \<Rightarrow> int list \<Rightarrow> error + ycolumn" where
  "take_ycolumn c samples =
     (case c of BoolCol bs \<Rightarrow> r_bind (np_take bs samples) (\<lambda>r. Inr (BoolCol r))
              | NumCol vs \<Rightarrow> r_bind (np_take vs samples) (\<lambda>r. Inr (NumCol r)))"

text \<open>Modelled from the spec: \<open>element.iloc[samples]\<close>, the framework's row selection,
  which is not part of the module. The specification has it "a row-index selection
  over the data object": the rows at the given positions, in the given order.\<close>

definition iloc :: "element \<Rightarrow> int list \<Rightarrow> error + element" where
  "iloc e samples =
     r_bind (np_take (xcol e) samples) (\<lambda>xs.
     r_bind (take_ycolumn (ycol e) samples) (\<lambda>ys.
     Inr \<lparr>xcol = xs, ycol = ys\<rparr>))"

text \<open>\<open>ys.astype(np.int8)\<close> on a boolean array.\<close>

definition astype_int8 :: "bool list \<Rightarrow> rat list" where
  "astype_int8 bs = map (\<lambda>b. if b then 1 else 0) bs"

text \<open>The dictionary \<open>_ALGORITHMS\<close>; a missing key raises KeyError.\<close>

definition ALGORITHMS ::
  "(nat \<Rightarrow> int) \<Rightarrow> (string \<times> (rat list \<Rightarrow> rat list \<Rightarrow> int \<Rightarrow> error + int list)) list" where
  "ALGORITHMS junk = [(''lttb'', lttb junk), (''nth'', nth_point)]"

definition getitem_dict :: "(string \<times> 'v) list \<Rightarrow> string \<Rightarrow> error + 'v" where
  "getitem_dict d k = (case map_of d k of None \<Rightarrow> Inl KeyError | Some v \<Rightarrow> Inr v)"

text \<open>The values handed to the algorithm for the second dimension:
  \<open>if ys.dtype == np.bool_: ys = ys.astype(np.int8)\<close>.\<close>

definition algorithm_ys :: "ycolumn \<Rightarrow> rat list" where
  "algorithm_ys c = (case c of BoolCol bs \<Rightarrow> astype_int8 bs | NumCol vs \<Rightarrow> vs)"

text \<open>\<open>downsample1d._process(element)\<close> under the parameters \<open>p\<close>.\<close>

definition process :: "(nat \<Rightarrow> int) \<Rightarrow> params \<Rightarrow> element \<Rightarrow> error + element" where
  "process junk p element0 =
     (let element = (case x_range p of None \<Rightarrow> element0 | Some r \<Rightarrow> getitem_slice element0 r)
      in if int (elem_len element) \<le> width p then Inr element
         else
           let xs = xcol element; ys = algorithm_ys (ycol element)
           in r_bind (getitem_dict (ALGORITHMS junk) (algorithm p)) (\<lambda>downsample.
              r_bind (downsample xs ys (width p)) (\<lambda>samples.
              iloc element samples)))"

subsection \<open>The quantities the properties are stated with\<close>




text \<open>Memory that happens to hold zeros, for running \<open>_lttb\<close> on concrete inputs.\<close>

definition zero_memory :: "nat \<Rightarrow> int" where
  "zero_memory i = 0"

text \<open>Entry \<open>i\<close> of the offset table as the stepping formula gives it:
  \<open>floor (1 + i * block_size)\<close> with \<open>block_size = (n - 2) / (n_out - 2)\<close>.\<close>

definition offset_at :: "nat \<Rightarrow> int \<Rightarrow> nat \<Rightarrow> int" where
  "offset_at n n_out i = \<lfloor>1 + of_nat i * ((of_int (int n - 2) :: rat) / of_int (n_out - 2))\<rfloor>"


section \<open>Properties\<close>

subsection \<open>Sequencing, indexing and slicing\<close>

lemma r_bind_Inr [simp]: "r_bind (Inr v) f = f v"
  by (simp add: r_bind_def)

lemma r_bind_Inl [simp]: "r_bind (Inl e) f = Inl e"
  by (simp add: r_bind_def)















subsection \<open>The area argmax and the loop rule\<close>







subsection \<open>The offset table\<close>











subsection \<open>One turn of the loop and the edge case\<close>

lemma offset_table_nth:
  "i < nat (n_out - 1) \<Longrightarrow> map (offset_at n n_out) [0 ..< nat (n_out - 1)] ! i = offset_at n n_out i"
  by simp



subsection \<open>A run of the selector on a valid input\<close>





lemma lttb_example: "lttb zero_memory [0, 1, 2, 3, 4, 5, 6, 7, 8, 9] [0, 5, 1, 2, 9, 3, - 4, 2, 2, 1] 5 = Inr [0, 1, 4, 6, 9]"
  by code_simp

section \<open>The claims\<close>









lemma lttb_example_4: "lttb zero_memory [0, 1, 2, 3, 4, 5] [0, 3, 1, 4, 1, 5] 4 = Inr [0, 1, 4, 5]"
  by code_simp




lemma lttb_example_3: "lttb zero_memory [0, 1, 2, 3, 4] [2, 0, 7, 1, 2] 3 = Inr [0, 2, 4]"
  by code_simp



text \<open>Stepping by the integer quotient \<open>98 div 8 = 12\<close> gives another table, which differs
  from entry 4 on.\<close>

lemma even_integer_stepping_differs:
  "map (\<lambda>i. 1 + int i * ((100 - 2) div (10 - 2))) [0 ..< 9] = [1, 13, 25, 37, 49, 61, 73, 85, 97]"
  by code_simp

subsection \<open>How the selector fails\<close>

lemma r_bind_eq_Inr: "r_bind m f = Inr v \<longleftrightarrow> (\<exists>u. m = Inr u \<and> f u = Inr v)"
  by (cases m) simp_all















subsection \<open>The stride selector\<close>

text \<open>
  C2. The claim is what the docstring of \<open>_nth_point\<close> promises, and the code does not
  deliver it: the body reads \<open>len(s)\<close>, and \<open>s\<close> is neither a parameter nor a module
  name, so every call raises NameError before any index is computed.
\<close>

theorem nth_point_raises_NameError: "nth_point x y n_out = Inl NameError"
  by (simp add: nth_point_def read_name_def nth_point_scope_def module_names_def)

lemma nth_point_at_spec_example:
  "nth_point (map of_nat [0 ..< 100]) (map of_nat [0 ..< 100]) 10 = Inl NameError"
  by (simp add: nth_point_def read_name_def nth_point_scope_def module_names_def)

lemma process_nth_raises:
  assumes "x_range p = None" and "\<not> int (elem_len e) \<le> width p" and "algorithm p = ''nth''"
  shows "process junk p e = Inl NameError"
  using assms
  by (simp add: process_def getitem_dict_def ALGORITHMS_def nth_point_def read_name_def
      nth_point_scope_def module_names_def)

subsection \<open>The operation\<close>

text \<open>
  C4. The operation applies the optional range filter first and then, when the filtered
  series is no longer than \<open>width\<close>, returns it unchanged: no algorithm is looked up or
  run, whatever the algorithm name is.
\<close>

theorem process_short_series_unchanged:
  assumes "element = (case x_range p of None \<Rightarrow> e | Some r \<Rightarrow> getitem_slice e r)"
    and "int (elem_len element) \<le> width p"
  shows "process junk p e = Inr element"
  using assms by (simp add: process_def)

theorem process_short_series_unchanged_witness:
  "process zero_memory \<lparr>x_range = None, width = 10, algorithm = ''lttb''\<rparr>
      \<lparr>xcol = [0, 1, 2, 3, 4], ycol = NumCol [3, 1, 4, 1, 5]\<rparr>
     = Inr \<lparr>xcol = [0, 1, 2, 3, 4], ycol = NumCol [3, 1, 4, 1, 5]\<rparr>
   \<and> process zero_memory \<lparr>x_range = Some (1, 4), width = 3, algorithm = ''nth''\<rparr>
      \<lparr>xcol = [0, 1, 2, 3, 4], ycol = NumCol [3, 1, 4, 1, 5]\<rparr>
     = Inr \<lparr>xcol = [1, 2, 3], ycol = NumCol [1, 4, 1]\<rparr>"
proof -
  have a: "process zero_memory \<lparr>x_range = None, width = 10, algorithm = ''lttb''\<rparr>
      \<lparr>xcol = [0, 1, 2, 3, 4], ycol = NumCol [3, 1, 4, 1, 5]\<rparr>
     = Inr \<lparr>xcol = [0, 1, 2, 3, 4], ycol = NumCol [3, 1, 4, 1, 5]\<rparr>"
    by (rule process_short_series_unchanged) (simp_all add: elem_len_def)
  have b: "process zero_memory \<lparr>x_range = Some (1, 4), width = 3, algorithm = ''nth''\<rparr>
      \<lparr>xcol = [0, 1, 2, 3, 4], ycol = NumCol [3, 1, 4, 1, 5]\<rparr>
     = Inr \<lparr>xcol = [1, 2, 3], ycol = NumCol [1, 4, 1]\<rparr>"
    by (rule process_short_series_unchanged)
      (simp_all add: elem_len_def getitem_slice_def keep_rows_def map_ycolumn_def)
  from a b show ?thesis by (intro conjI)
qed

lemma iloc_ycol:
  assumes "iloc e samples = Inr out"
  shows "take_ycolumn (ycol e) samples = Inr (ycol out)"
  using assms by (auto simp: iloc_def r_bind_eq_Inr)

lemma take_ycolumn_bool:
  assumes "take_ycolumn (BoolCol bs) samples = Inr c"
  shows "\<exists>bs'. np_take bs samples = Inr bs' \<and> c = BoolCol bs'"
  using assms by (auto simp: take_ycolumn_def r_bind_eq_Inr)

text \<open>
  C8. When the series is longer than \<open>width\<close>, the algorithm receives the x column and,
  for a boolean y column, the values \<open>0\<close> for false and \<open>1\<close> for true; a numeric y
  column is passed as it is. The selection is applied to the element itself, so for a
  boolean y column the returned y column is boolean again: the original booleans at the
  selected positions.
\<close>

theorem process_boolean_series:
  assumes "element = (case x_range p of None \<Rightarrow> e | Some r \<Rightarrow> getitem_slice e r)"
    and "\<not> int (elem_len element) \<le> width p"
  shows "process junk p e =
       r_bind (getitem_dict (ALGORITHMS junk) (algorithm p)) (\<lambda>downsample.
       r_bind (downsample (xcol element) (algorithm_ys (ycol element)) (width p)) (iloc element))
     \<and> (\<forall>bs. ycol element = BoolCol bs \<longrightarrow>
           algorithm_ys (ycol element) = map (\<lambda>b. if b then 1 else 0) bs)
     \<and> (\<forall>vs. ycol element = NumCol vs \<longrightarrow> algorithm_ys (ycol element) = vs)
     \<and> (\<forall>bs out. ycol element = BoolCol bs \<and> process junk p e = Inr out \<longrightarrow>
           (\<exists>samples bs'. np_take bs samples = Inr bs' \<and> ycol out = BoolCol bs'))"
proof -
  have run: "process junk p e =
       r_bind (getitem_dict (ALGORITHMS junk) (algorithm p)) (\<lambda>downsample.
       r_bind (downsample (xcol element) (algorithm_ys (ycol element)) (width p)) (iloc element))"
    using assms by (simp add: process_def Let_def)
  have kept: "\<exists>samples bs'. np_take bs samples = Inr bs' \<and> ycol out = BoolCol bs'"
    if b: "ycol element = BoolCol bs" and out: "process junk p e = Inr out" for bs out
  proof -
    from out run obtain samples where "iloc element samples = Inr out"
      by (auto simp: r_bind_eq_Inr)
    from iloc_ycol [OF this] b have "take_ycolumn (BoolCol bs) samples = Inr (ycol out)" by simp
    from take_ycolumn_bool [OF this] show ?thesis by blast
  qed
  show ?thesis
    using run kept by (auto simp: algorithm_ys_def astype_int8_def)
qed

theorem process_boolean_series_witness:
  "\<not> int (elem_len \<lparr>xcol = [0, 1, 2, 3, 4], ycol = BoolCol [False, True, False, True, True]\<rparr>) \<le> 3
   \<and> process zero_memory \<lparr>x_range = None, width = 3, algorithm = ''lttb''\<rparr>
        \<lparr>xcol = [0, 1, 2, 3, 4], ycol = BoolCol [False, True, False, True, True]\<rparr>
      = Inr \<lparr>xcol = [0, 1, 4], ycol = BoolCol [False, True, True]\<rparr>"
proof -
  let ?e = "\<lparr>xcol = [0, 1, 2, 3, 4], ycol = BoolCol [False, True, False, True, True]\<rparr>"
  let ?p = "\<lparr>x_range = None, width = 3, algorithm = ''lttb''\<rparr>"
  have h1: "?e = (case x_range ?p of None \<Rightarrow> ?e | Some r \<Rightarrow> getitem_slice ?e r)" by simp
  have h2: "\<not> int (elem_len ?e) \<le> width ?p" by (simp add: elem_len_def)
  have sel: "lttb zero_memory [0, 1, 2, 3, 4] [0, 1, 0, 1, 1] 3 = Inr [0, 1, 4]" by code_simp
  have rows: "iloc ?e [0, 1, 4] = Inr \<lparr>xcol = [0, 1, 4], ycol = BoolCol [False, True, True]\<rparr>"
    by code_simp
  from process_boolean_series [OF h1 h2, of zero_memory]
  have "process zero_memory ?p ?e =
       r_bind (getitem_dict (ALGORITHMS zero_memory) (algorithm ?p)) (\<lambda>downsample.
       r_bind (downsample (xcol ?e) (algorithm_ys (ycol ?e)) (width ?p)) (iloc ?e))"
    by blast
  also have "\<dots> = Inr \<lparr>xcol = [0, 1, 4], ycol = BoolCol [False, True, True]\<rparr>"
    using sel rows by (simp add: getitem_dict_def ALGORITHMS_def algorithm_ys_def astype_int8_def)
  finally show ?thesis using h2 by simp
qed

end
